theory Spec2Isabelle
  imports Complex_Main "HOL-Library.Multiset"
begin

section \<open>JavaScript values\<close>

text \<open>
  The services compute with JavaScript Numbers. A Number is modelled as \<open>NaN\<close>, one of
  the two infinities, or a real number; arithmetic on the finite values is exact, so the
  rounding of binary64 and overflow to an infinity are outside the model, and the two
  zeros are one value (the results of \<open>x / 0\<close> are those for the positive zero).
  A property that an object may lack is an \<open>option\<close>: reading a missing property gives
  \<open>undefined\<close>, which is \<open>None\<close>.
\<close>

datatype jsnum = NaN | NegInfinity | Num real | PosInfinity

text \<open>\<open>ToNumber\<close> on a numeric property: \<open>undefined\<close> becomes \<open>NaN\<close>.\<close>

fun ToNumber :: "jsnum option \<Rightarrow> jsnum" where
  "ToNumber None = NaN"
| "ToNumber (Some v) = v"

fun js_neg :: "jsnum \<Rightarrow> jsnum" where
  "js_neg NaN = NaN"
| "js_neg NegInfinity = PosInfinity"
| "js_neg (Num x) = Num (- x)"
| "js_neg PosInfinity = NegInfinity"

text \<open>The operator \<open>+\<close> on two Numbers.\<close>

fun js_add :: "jsnum \<Rightarrow> jsnum \<Rightarrow> jsnum" where
  "js_add NaN _ = NaN"
| "js_add _ NaN = NaN"
| "js_add (Num x) (Num y) = Num (x + y)"
| "js_add PosInfinity NegInfinity = NaN"
| "js_add NegInfinity PosInfinity = NaN"
| "js_add PosInfinity _ = PosInfinity"
| "js_add _ PosInfinity = PosInfinity"
| "js_add NegInfinity _ = NegInfinity"
| "js_add _ NegInfinity = NegInfinity"

text \<open>The operator \<open>-\<close>.\<close>

definition js_sub :: "jsnum \<Rightarrow> jsnum \<Rightarrow> jsnum" where
  "js_sub a b = js_add a (js_neg b)"

text \<open>The sign of a Number that is not \<open>NaN\<close>: \<open>-1\<close>, \<open>0\<close> or \<open>1\<close>.\<close>

fun js_sgn :: "jsnum \<Rightarrow> real" where
  "js_sgn NaN = 0"
| "js_sgn NegInfinity = - 1"
| "js_sgn (Num x) = sgn x"
| "js_sgn PosInfinity = 1"

definition signed_infinity :: "real \<Rightarrow> jsnum" where
  "signed_infinity s = (if s < 0 then NegInfinity else PosInfinity)"

text \<open>The operator \<open>*\<close>: an infinity times zero is \<open>NaN\<close>.\<close>

fun js_mul :: "jsnum \<Rightarrow> jsnum \<Rightarrow> jsnum" where
  "js_mul NaN _ = NaN"
| "js_mul _ NaN = NaN"
| "js_mul (Num x) (Num y) = Num (x * y)"
| "js_mul a b =
     (if js_sgn a * js_sgn b = 0 then NaN else signed_infinity (js_sgn a * js_sgn b))"

text \<open>
  The operator \<open>/\<close>: \<open>0 / 0\<close> and an infinity over an infinity are \<open>NaN\<close>, any other
  number over zero is an infinity, a finite number over an infinity is zero.
\<close>

fun js_div :: "jsnum \<Rightarrow> jsnum \<Rightarrow> jsnum" where
  "js_div NaN _ = NaN"
| "js_div _ NaN = NaN"
| "js_div (Num x) (Num y) =
     (if y = 0 then (if x = 0 then NaN else signed_infinity x) else Num (x / y))"
| "js_div (Num x) _ = Num 0"
| "js_div a (Num y) = signed_infinity (js_sgn a * (if y < 0 then - 1 else 1))"
| "js_div _ _ = NaN"

text \<open>The operator \<open>></\<close>: every comparison with \<open>NaN\<close> is false.\<close>

fun js_gt :: "jsnum \<Rightarrow> jsnum \<Rightarrow> bool" where
  "js_gt NaN _ = False"
| "js_gt _ NaN = False"
| "js_gt (Num x) (Num y) = (y < x)"
| "js_gt PosInfinity b = (b \<noteq> PosInfinity)"
| "js_gt a NegInfinity = (a \<noteq> NegInfinity)"
| "js_gt _ _ = False"

text \<open>The operator \<open>>=\<close>.\<close>

fun js_ge :: "jsnum \<Rightarrow> jsnum \<Rightarrow> bool" where
  "js_ge NaN _ = False"
| "js_ge _ NaN = False"
| "js_ge (Num x) (Num y) = (y \<le> x)"
| "js_ge PosInfinity _ = True"
| "js_ge _ NegInfinity = True"
| "js_ge _ _ = False"

section \<open>Number.prototype.toFixed\<close>

definition digit_char :: "nat \<Rightarrow> char" where
  "digit_char d = ''0123456789'' ! d"

text \<open>The decimal digits of a natural number, without leading zeros.\<close>

fun digits :: "nat \<Rightarrow> string" where
  "digits n = (if n < 10 then [digit_char n] else digits (n div 10) @ [digit_char (n mod 10)])"

declare digits.simps [simp del]

text \<open>
  \<open>toFixed\<close> of a finite value \<open>x \<ge> 0\<close> below \<open>10^21\<close> with \<open>f\<close> fraction digits: let
  \<open>n\<close> be the integer for which \<open>n / 10^f - x\<close> is as close to zero as possible, the larger
  one if there are two; pad its digits with zeros on the left to \<open>f + 1\<close> characters and
  put the point before the last \<open>f\<close>.
\<close>

definition fixed_digits :: "nat \<Rightarrow> real \<Rightarrow> string" where
  "fixed_digits f x =
     (let n = nat \<lfloor>x * 10 ^ f + 1 / 2\<rfloor>;
          m = digits n;
          m = (if length m \<le> f then replicate (f + 1 - length m) CHR ''0'' @ m else m);
          k = length m
      in if f = 0 then m else take (k - f) m @ ''.'' @ drop (k - f) m)"

text \<open>
  \<open>x.toFixed(f)\<close>. A value that is not finite is printed by name. A negative value is
  printed as \<open>-\<close> followed by its absolute value. From \<open>10^21\<close> on the result is the
  default string of the Number, whose digits depend on its binary64 representation: that
  conversion is the parameter \<open>to_string\<close>.
\<close>

fun toFixed :: "(real \<Rightarrow> string) \<Rightarrow> nat \<Rightarrow> jsnum \<Rightarrow> string" where
  "toFixed to_string f NaN = ''NaN''"
| "toFixed to_string f PosInfinity = ''Infinity''"
| "toFixed to_string f NegInfinity = ''-Infinity''"
| "toFixed to_string f (Num x) =
     (let s = (if x < 0 then ''-'' else '''');
          x = (if x < 0 then - x else x)
      in s @ (if 10 ^ 21 \<le> x then to_string x else fixed_digits f x))"

text \<open>A property that holds either a Number or a string.\<close>

datatype jsval = Number jsnum | String string

section \<open>GoogleAdsService of the monitoring guide\<close>

datatype error = TypeError | QueryError string

text \<open>
  A row of \<open>customer.query\<close>: the objects \<open>row.campaign\<close> and \<open>row.metrics\<close> and
  their properties, each of which may be missing.
\<close>

record row_campaign =
  campaign_id :: "string option"
  campaign_name :: "string option"
  campaign_status :: "string option"
  campaign_advertising_channel_type :: "string option"

record row_metrics =
  metrics_cost_micros :: "jsnum option"
  metrics_clicks :: "jsnum option"
  metrics_impressions :: "jsnum option"
  metrics_conversions :: "jsnum option"
  metrics_conversions_value :: "jsnum option"
  metrics_average_cpc :: "jsnum option"
  metrics_ctr :: "jsnum option"

record row =
  campaign :: "row_campaign option"
  metrics :: "row_metrics option"

text \<open>The object pushed for each row by \<open>getCampaigns\<close>.\<close>

record campaign_data =
  c_id :: "string option"
  c_name :: "string option"
  c_status :: "string option"
  c_type :: "string option"
  c_cost :: jsnum
  c_clicks :: "jsnum option"
  c_impressions :: "jsnum option"
  c_conversions :: "jsnum option"
  c_revenue :: "jsnum option"
  c_avgCpc :: jsnum
  c_ctr :: "jsnum option"

text \<open>
  The body of the loop of \<open>getCampaigns\<close>. Reading a property of \<open>row.campaign\<close> or of
  \<open>row.metrics\<close> when that object is \<open>undefined\<close> throws a \<open>TypeError\<close>; reading a
  missing property of an object that is there gives \<open>undefined\<close>.
\<close>

definition campaign_of_row :: "row \<Rightarrow> error + campaign_data" where
  "campaign_of_row r =
     (case campaign r of
        None \<Rightarrow> Inl TypeError
      | Some c \<Rightarrow>
          (case metrics r of
             None \<Rightarrow> Inl TypeError
           | Some m \<Rightarrow>
               Inr \<lparr>c_id = campaign_id c,
                    c_name = campaign_name c,
                    c_status = campaign_status c,
                    c_type = campaign_advertising_channel_type c,
                    c_cost = js_div (ToNumber (metrics_cost_micros m)) (Num 1000000),
                    c_clicks = metrics_clicks m,
                    c_impressions = metrics_impressions m,
                    c_conversions = metrics_conversions m,
                    c_revenue = metrics_conversions_value m,
                    c_avgCpc = js_div (ToNumber (metrics_average_cpc m)) (Num 1000000),
                    c_ctr = metrics_ctr m\<rparr>))"

text \<open>The loop over the rows: the first row that throws ends the call.\<close>

fun campaigns_of_rows :: "row list \<Rightarrow> error + campaign_data list" where
  "campaigns_of_rows [] = Inr []"
| "campaigns_of_rows (r # rs) =
     (case campaign_of_row r of
        Inl e \<Rightarrow> Inl e
      | Inr c \<Rightarrow> (case campaigns_of_rows rs of Inl e \<Rightarrow> Inl e | Inr cs \<Rightarrow> Inr (c # cs)))"

text \<open>
  \<open>getCampaigns\<close>, as a function of the outcome of \<open>customer.query\<close>. Whatever is thrown
  inside \<open>try\<close> is logged and thrown again.
\<close>

definition getCampaigns :: "error + row list \<Rightarrow> error + campaign_data list" where
  "getCampaigns results = (case results of Inl e \<Rightarrow> Inl e | Inr rows \<Rightarrow> campaigns_of_rows rows)"

text \<open>The object built by \<open>reduce\<close> in \<open>getCampaignSummary\<close>.\<close>

record totals =
  totalCost :: jsnum
  totalClicks :: jsnum
  totalImpressions :: jsnum
  totalConversions :: jsnum
  totalRevenue :: jsnum

definition summary_step :: "totals \<Rightarrow> campaign_data \<Rightarrow> totals" where
  "summary_step acc c =
     \<lparr>totalCost = js_add (totalCost acc) (c_cost c),
      totalClicks = js_add (totalClicks acc) (ToNumber (c_clicks c)),
      totalImpressions = js_add (totalImpressions acc) (ToNumber (c_impressions c)),
      totalConversions = js_add (totalConversions acc) (ToNumber (c_conversions c)),
      totalRevenue = js_add (totalRevenue acc) (ToNumber (c_revenue c))\<rparr>"

definition summary_init :: totals where
  "summary_init =
     \<lparr>totalCost = Num 0, totalClicks = Num 0, totalImpressions = Num 0,
      totalConversions = Num 0, totalRevenue = Num 0\<rparr>"

definition summary_reduce :: "campaign_data list \<Rightarrow> totals" where
  "summary_reduce campaigns = foldl summary_step summary_init campaigns"

text \<open>The summary with the metrics that \<open>getCampaignSummary\<close> adds to it.\<close>

record summary = totals +
  roas :: jsval
  roi :: jsval
  avgCpc :: jsval
  conversionRate :: jsval
  avgCtr :: jsval
  activeCampaigns :: nat
  totalCampaigns :: nat

text \<open>
  The metrics: each is the string of \<open>toFixed(2)\<close> when its denominator is greater than
  zero, and the Number \<open>0\<close> otherwise.
\<close>

definition summary_roas :: "(real \<Rightarrow> string) \<Rightarrow> totals \<Rightarrow> jsval" where
  "summary_roas ts s =
     (if js_gt (totalCost s) (Num 0)
      then String (toFixed ts 2 (js_div (totalRevenue s) (totalCost s)))
      else Number (Num 0))"

definition summary_roi :: "(real \<Rightarrow> string) \<Rightarrow> totals \<Rightarrow> jsval" where
  "summary_roi ts s =
     (if js_gt (totalCost s) (Num 0)
      then String (toFixed ts 2
             (js_mul (js_div (js_sub (totalRevenue s) (totalCost s)) (totalCost s)) (Num 100)))
      else Number (Num 0))"

definition summary_avgCpc :: "(real \<Rightarrow> string) \<Rightarrow> totals \<Rightarrow> jsval" where
  "summary_avgCpc ts s =
     (if js_gt (totalClicks s) (Num 0)
      then String (toFixed ts 2 (js_div (totalCost s) (totalClicks s)))
      else Number (Num 0))"

definition summary_conversionRate :: "(real \<Rightarrow> string) \<Rightarrow> totals \<Rightarrow> jsval" where
  "summary_conversionRate ts s =
     (if js_gt (totalClicks s) (Num 0)
      then String (toFixed ts 2 (js_mul (js_div (totalConversions s) (totalClicks s)) (Num 100)))
      else Number (Num 0))"

definition summary_avgCtr :: "(real \<Rightarrow> string) \<Rightarrow> totals \<Rightarrow> jsval" where
  "summary_avgCtr ts s =
     (if js_gt (totalImpressions s) (Num 0)
      then String (toFixed ts 2 (js_mul (js_div (totalClicks s) (totalImpressions s)) (Num 100)))
      else Number (Num 0))"

definition summary_of :: "(real \<Rightarrow> string) \<Rightarrow> campaign_data list \<Rightarrow> summary" where
  "summary_of ts campaigns =
     (let s = summary_reduce campaigns
      in totals.extend s
           (summary.fields (summary_roas ts s) (summary_roi ts s) (summary_avgCpc ts s)
              (summary_conversionRate ts s) (summary_avgCtr ts s)
              (length (filter (\<lambda>c. c_status c = Some ''ENABLED'') campaigns))
              (length campaigns)))"

definition getCampaignSummary ::
  "(real \<Rightarrow> string) \<Rightarrow> error + row list \<Rightarrow> error + summary" where
  "getCampaignSummary ts results =
     (case getCampaigns results of Inl e \<Rightarrow> Inl e | Inr campaigns \<Rightarrow> Inr (summary_of ts campaigns))"

section \<open>GoogleAdsService of the Shopify guide\<close>

text \<open>The object pushed for each row by \<open>getAdSpend\<close>.\<close>

record ad_spend =
  campaignId :: "string option"
  campaignName :: "string option"
  a_cost :: jsnum
  a_clicks :: "jsnum option"
  a_impressions :: "jsnum option"
  a_conversions :: "jsnum option"
  conversionValue :: "jsnum option"

definition ad_spend_of_row :: "row \<Rightarrow> error + ad_spend" where
  "ad_spend_of_row r =
     (case campaign r of
        None \<Rightarrow> Inl TypeError
      | Some c \<Rightarrow>
          (case metrics r of
             None \<Rightarrow> Inl TypeError
           | Some m \<Rightarrow>
               Inr \<lparr>campaignId = campaign_id c,
                    campaignName = campaign_name c,
                    a_cost = js_div (ToNumber (metrics_cost_micros m)) (Num 1000000),
                    a_clicks = metrics_clicks m,
                    a_impressions = metrics_impressions m,
                    a_conversions = metrics_conversions m,
                    conversionValue = metrics_conversions_value m\<rparr>))"

fun ad_spend_of_rows :: "row list \<Rightarrow> error + ad_spend list" where
  "ad_spend_of_rows [] = Inr []"
| "ad_spend_of_rows (r # rs) =
     (case ad_spend_of_row r of
        Inl e \<Rightarrow> Inl e
      | Inr c \<Rightarrow> (case ad_spend_of_rows rs of Inl e \<Rightarrow> Inl e | Inr cs \<Rightarrow> Inr (c # cs)))"

definition getAdSpend :: "error + row list \<Rightarrow> error + ad_spend list" where
  "getAdSpend results = (case results of Inl e \<Rightarrow> Inl e | Inr rows \<Rightarrow> ad_spend_of_rows rows)"

record spend_totals =
  totalSpend :: jsnum
  s_totalClicks :: jsnum
  s_totalImpressions :: jsnum
  s_totalConversions :: jsnum
  s_totalRevenue :: jsnum

definition spend_step :: "spend_totals \<Rightarrow> ad_spend \<Rightarrow> spend_totals" where
  "spend_step acc c =
     \<lparr>totalSpend = js_add (totalSpend acc) (a_cost c),
      s_totalClicks = js_add (s_totalClicks acc) (ToNumber (a_clicks c)),
      s_totalImpressions = js_add (s_totalImpressions acc) (ToNumber (a_impressions c)),
      s_totalConversions = js_add (s_totalConversions acc) (ToNumber (a_conversions c)),
      s_totalRevenue = js_add (s_totalRevenue acc) (ToNumber (conversionValue c))\<rparr>"

definition spend_init :: spend_totals where
  "spend_init =
     \<lparr>totalSpend = Num 0, s_totalClicks = Num 0, s_totalImpressions = Num 0,
      s_totalConversions = Num 0, s_totalRevenue = Num 0\<rparr>"

definition spend_reduce :: "ad_spend list \<Rightarrow> spend_totals" where
  "spend_reduce campaigns = foldl spend_step spend_init campaigns"

record spend_summary = spend_totals +
  s_roas :: jsnum
  s_cpc :: jsnum
  s_conversionRate :: jsnum

text \<open>The metrics of this summary are Numbers: no \<open>toFixed\<close> here.\<close>

definition spend_roas :: "spend_totals \<Rightarrow> jsnum" where
  "spend_roas s =
     (if js_gt (totalSpend s) (Num 0) then js_div (s_totalRevenue s) (totalSpend s) else Num 0)"

definition spend_cpc :: "spend_totals \<Rightarrow> jsnum" where
  "spend_cpc s =
     (if js_gt (s_totalClicks s) (Num 0) then js_div (totalSpend s) (s_totalClicks s) else Num 0)"

definition spend_conversionRate :: "spend_totals \<Rightarrow> jsnum" where
  "spend_conversionRate s =
     (if js_gt (s_totalClicks s) (Num 0)
      then js_mul (js_div (s_totalConversions s) (s_totalClicks s)) (Num 100)
      else Num 0)"

definition spend_summary_of :: "ad_spend list \<Rightarrow> spend_summary" where
  "spend_summary_of campaigns =
     (let s = spend_reduce campaigns
      in spend_totals.extend s
           (spend_summary.fields (spend_roas s) (spend_cpc s) (spend_conversionRate s)))"

text \<open>\<open>getCampaignSummary\<close> of this service.\<close>

definition getCampaignSummary_spend :: "error + row list \<Rightarrow> error + spend_summary" where
  "getCampaignSummary_spend results =
     (case getAdSpend results of
        Inl e \<Rightarrow> Inl e
      | Inr campaigns \<Rightarrow> Inr (spend_summary_of campaigns))"

section \<open>ROIAnalysisService\<close>

text \<open>The results of \<open>getProductAdPerformance\<close> and of \<open>getProductSales\<close>.\<close>

record adData =
  ad_productId :: string
  adSpend :: jsnum
  ad_conversions :: jsnum
  ad_revenue :: jsnum
  ad_roas :: jsnum

record salesData =
  sales_productId :: string
  sales_revenue :: jsnum
  sales_quantity :: jsnum
  sales_orderCount :: jsnum
  averageOrderValue :: jsnum

record recommendation =
  action :: string
  message :: string
  suggestedBudgetChange :: jsnum

text \<open>
  The object \<open>roi\<close> of \<open>calculateProductROI\<close> (here \<open>r\<close>), before and after the
  recommendation is added to it.
\<close>

record product_roi =
  p_productId :: string
  p_adSpend :: jsnum
  p_revenue :: jsnum
  p_profit :: jsnum
  p_roi :: jsnum
  p_roas :: jsnum
  p_quantity :: jsnum
  p_orderCount :: jsnum

record product_result = product_roi +
  p_recommendation :: recommendation

definition getRecommendation ::
  "(real \<Rightarrow> string) \<Rightarrow> 'a product_roi_scheme \<Rightarrow> recommendation" where
  "getRecommendation ts r =
     (if js_gt (p_roi r) (Num 100) then
        \<lparr>action = ''INCREASE_BUDGET'',
         message = ''Strong performance! ROI is '' @ toFixed ts 2 (p_roi r)
                   @ ''%. Consider increasing ad spend by 20-30%.'',
         suggestedBudgetChange = Num 0.25\<rparr>
      else if js_gt (p_roi r) (Num 30) then
        \<lparr>action = ''MAINTAIN_BUDGET'',
         message = ''Good performance. ROI is '' @ toFixed ts 2 (p_roi r)
                   @ ''%. Maintain current budget and monitor.'',
         suggestedBudgetChange = Num 0\<rparr>
      else if js_gt (p_roi r) (Num 0) then
        \<lparr>action = ''OPTIMIZE'',
         message = ''Low ROI ('' @ toFixed ts 2 (p_roi r)
                   @ ''%). Review ad targeting and creative. Consider A/B testing.'',
         suggestedBudgetChange = Num 0\<rparr>
      else
        \<lparr>action = ''DECREASE_BUDGET'',
         message = ''Negative ROI ('' @ toFixed ts 2 (p_roi r)
                   @ ''%). Consider reducing spend by 30-50% or pausing campaign.'',
         suggestedBudgetChange = Num (- 0.4)\<rparr>)"

definition calculateProductROI ::
  "(real \<Rightarrow> string) \<Rightarrow> adData \<Rightarrow> salesData \<Rightarrow> product_result" where
  "calculateProductROI ts ad sales =
     (let r =
        \<lparr>p_productId = ad_productId ad,
         p_adSpend = adSpend ad,
         p_revenue = sales_revenue sales,
         p_profit = js_sub (sales_revenue sales) (adSpend ad),
         p_roi = (if js_gt (adSpend ad) (Num 0)
                  then js_mul (js_div (js_sub (sales_revenue sales) (adSpend ad)) (adSpend ad))
                         (Num 100)
                  else Num 0),
         p_roas = ad_roas ad,
         p_quantity = sales_quantity sales,
         p_orderCount = sales_orderCount sales\<rparr>
      in product_roi.extend r (product_result.fields (getRecommendation ts r)))"

text \<open>
  \<open>Array.prototype.sort\<close> with a comparator: the sort is stable, and a comparator result
  that is \<open>NaN\<close> counts as zero. With a consistent comparator the result is the one of
  sorting by insertion, which is the definition here; with an inconsistent one the order
  is left to the implementation.
\<close>

fun insert_by :: "('a \<Rightarrow> 'a \<Rightarrow> jsnum) \<Rightarrow> 'a \<Rightarrow> 'a list \<Rightarrow> 'a list" where
  "insert_by cmp x [] = [x]"
| "insert_by cmp x (y # ys) =
     (if js_gt (cmp x y) (Num 0) then y # insert_by cmp x ys else x # y # ys)"

definition js_sort :: "('a \<Rightarrow> 'a \<Rightarrow> jsnum) \<Rightarrow> 'a list \<Rightarrow> 'a list" where
  "js_sort cmp xs = foldr (insert_by cmp) xs []"

record ranked_result = product_result +
  rank :: nat

definition compare_roi :: "'a product_roi_scheme \<Rightarrow> 'a product_roi_scheme \<Rightarrow> jsnum" where
  "compare_roi a b = js_sub (p_roi b) (p_roi a)"

definition with_rank :: "product_result \<Rightarrow> nat \<Rightarrow> ranked_result" where
  "with_rank product index = product_result.extend product (ranked_result.fields (index + 1))"

definition compareProducts :: "product_result list \<Rightarrow> ranked_result list" where
  "compareProducts productsROI =
     (let sorted = js_sort compare_roi productsROI
      in map (\<lambda>(product, index). with_rank product index) (zip sorted [0..<length sorted]))"

section \<open>Concrete inputs\<close>

text \<open>A stand-in for the default string conversion, for inputs below \<open>10^21\<close>.\<close>

definition no_to_string :: "real \<Rightarrow> string" where
  "no_to_string x = []"

definition example_roi :: "real \<Rightarrow> product_roi" where
  "example_roi x =
     \<lparr>p_productId = ''P1'', p_adSpend = Num 100, p_revenue = Num (100 + x),
      p_profit = Num x, p_roi = Num x, p_roas = Num ((100 + x) / 100),
      p_quantity = Num 3, p_orderCount = Num 2\<rparr>"

text \<open>The totals of the example response of the guide.\<close>

definition example_totals :: totals where
  "example_totals =
     \<lparr>totalCost = Num 245.67, totalClicks = Num 1234, totalImpressions = Num 45678,
      totalConversions = Num 89, totalRevenue = Num 1567.89\<rparr>"

text \<open>Totals with revenue and nothing else.\<close>

definition idle_totals :: totals where
  "idle_totals =
     \<lparr>totalCost = Num 0, totalClicks = Num 0, totalImpressions = Num 0,
      totalConversions = Num 0, totalRevenue = Num 12\<rparr>"

definition idle_adData :: adData where
  "idle_adData =
     \<lparr>ad_productId = ''P1'', adSpend = Num 0, ad_conversions = Num 0, ad_revenue = Num 0,
      ad_roas = Num 0\<rparr>"

definition example_salesData :: "real \<Rightarrow> salesData" where
  "example_salesData x =
     \<lparr>sales_productId = ''P1'', sales_revenue = Num x, sales_quantity = Num 3,
      sales_orderCount = Num 2, averageOrderValue = Num (x / 2)\<rparr>"

definition example_campaign ::
  "string \<Rightarrow> real \<Rightarrow> real \<Rightarrow> real \<Rightarrow> real \<Rightarrow> real \<Rightarrow> campaign_data" where
  "example_campaign n cost clicks impressions conversions revenue =
     \<lparr>c_id = Some n, c_name = Some n, c_status = Some ''ENABLED'', c_type = Some ''SEARCH'',
      c_cost = Num cost, c_clicks = Some (Num clicks), c_impressions = Some (Num impressions),
      c_conversions = Some (Num conversions), c_revenue = Some (Num revenue),
      c_avgCpc = Num 0.5, c_ctr = Some (Num 0.03)\<rparr>"

text \<open>Two campaigns whose totals are those of the example response.\<close>

definition campaign_A :: campaign_data where
  "campaign_A = example_campaign ''Summer Sale'' 100.5 300 10000 20 500"

definition campaign_B :: campaign_data where
  "campaign_B = example_campaign ''Brand Awareness'' 145.17 934 35678 69 1067.89"

definition example_ad_spend ::
  "string \<Rightarrow> real \<Rightarrow> real \<Rightarrow> real \<Rightarrow> real \<Rightarrow> real \<Rightarrow> ad_spend" where
  "example_ad_spend n cost clicks impressions conversions revenue =
     \<lparr>campaignId = Some n, campaignName = Some n, a_cost = Num cost,
      a_clicks = Some (Num clicks), a_impressions = Some (Num impressions),
      a_conversions = Some (Num conversions), conversionValue = Some (Num revenue)\<rparr>"

definition ad_spend_A :: ad_spend where
  "ad_spend_A = example_ad_spend ''Summer Sale'' 100.5 300 10000 20 500"

definition ad_spend_B :: ad_spend where
  "ad_spend_B = example_ad_spend ''Brand Awareness'' 145.17 934 35678 69 1067.89"

text \<open>Rows of the query: one complete, one without \<open>clicks\<close>, one without \<open>metrics\<close>.\<close>

definition full_row :: row where
  "full_row =
     \<lparr>campaign = Some \<lparr>campaign_id = Some ''103'', campaign_name = Some ''Retargeting'',
                        campaign_status = Some ''PAUSED'',
                        campaign_advertising_channel_type = Some ''SEARCH''\<rparr>,
      metrics = Some \<lparr>metrics_cost_micros = Some (Num 2500000), metrics_clicks = Some (Num 10),
                       metrics_impressions = Some (Num 900), metrics_conversions = Some (Num 4),
                       metrics_conversions_value = Some (Num 80),
                       metrics_average_cpc = Some (Num 250000), metrics_ctr = Some (Num 0.01)\<rparr>\<rparr>"

definition row_without_clicks :: row where
  "row_without_clicks =
     \<lparr>campaign = Some \<lparr>campaign_id = Some ''101'', campaign_name = Some ''Summer Sale'',
                        campaign_status = Some ''ENABLED'',
                        campaign_advertising_channel_type = Some ''SEARCH''\<rparr>,
      metrics = Some \<lparr>metrics_cost_micros = Some (Num 2500000), metrics_clicks = None,
                       metrics_impressions = Some (Num 900), metrics_conversions = Some (Num 4),
                       metrics_conversions_value = Some (Num 80),
                       metrics_average_cpc = Some (Num 250000), metrics_ctr = Some (Num 0.01)\<rparr>\<rparr>"

definition row_without_metrics :: row where
  "row_without_metrics =
     \<lparr>campaign = Some \<lparr>campaign_id = Some ''102'', campaign_name = Some ''Brand Awareness'',
                        campaign_status = Some ''ENABLED'',
                        campaign_advertising_channel_type = Some ''DISPLAY''\<rparr>,
      metrics = None\<rparr>"



text \<open>The ad data of the example response of the product endpoint.\<close>

definition example_adData :: adData where
  "example_adData =
     \<lparr>ad_productId = ''123456789'', adSpend = Num 200, ad_conversions = Num 15,
      ad_revenue = Num 850, ad_roas = Num 4.25\<rparr>"

text \<open>Three results of \<open>calculateProductROI\<close>, with a \<open>roi\<close> of 325, -50 and 600.\<close>

definition example_results :: "product_result list" where
  "example_results =
     [calculateProductROI no_to_string example_adData (example_salesData 850),
      calculateProductROI no_to_string example_adData (example_salesData 100),
      calculateProductROI no_to_string example_adData (example_salesData 1400)]"

section \<open>The recommendation rules\<close>

text \<open>
  C1. For a finite \<open>roi\<close>, \<open>getRecommendation\<close> returns the tier of the first rule that
  matches, each bound being strict: above 100 the action is \<open>INCREASE_BUDGET\<close> with a
  budget change of 0.25; above 30 and up to 100 it is \<open>MAINTAIN_BUDGET\<close> with 0; above 0
  and up to 30 it is \<open>OPTIMIZE\<close> with 0; at 0 and below it is \<open>DECREASE_BUDGET\<close> with
  -0.4. So 100, 30 and 0 fall in the lower tier each.
\<close>

theorem getRecommendation_tiers:
  assumes "p_roi r = Num x"
  shows "(100 < x \<longrightarrow>
            action (getRecommendation ts r) = ''INCREASE_BUDGET'' \<and>
            suggestedBudgetChange (getRecommendation ts r) = Num 0.25) \<and>
         (30 < x \<and> x \<le> 100 \<longrightarrow>
            action (getRecommendation ts r) = ''MAINTAIN_BUDGET'' \<and>
            suggestedBudgetChange (getRecommendation ts r) = Num 0) \<and>
         (0 < x \<and> x \<le> 30 \<longrightarrow>
            action (getRecommendation ts r) = ''OPTIMIZE'' \<and>
            suggestedBudgetChange (getRecommendation ts r) = Num 0) \<and>
         (x \<le> 0 \<longrightarrow>
            action (getRecommendation ts r) = ''DECREASE_BUDGET'' \<and>
            suggestedBudgetChange (getRecommendation ts r) = Num (- 0.4))"
  using assms by (simp add: getRecommendation_def)

theorem getRecommendation_tiers_witness:
  "action (getRecommendation no_to_string (example_roi 150)) = ''INCREASE_BUDGET'' \<and>
   suggestedBudgetChange (getRecommendation no_to_string (example_roi 150)) = Num 0.25 \<and>
   action (getRecommendation no_to_string (example_roi 100)) = ''MAINTAIN_BUDGET'' \<and>
   suggestedBudgetChange (getRecommendation no_to_string (example_roi 100)) = Num 0 \<and>
   action (getRecommendation no_to_string (example_roi 30)) = ''OPTIMIZE'' \<and>
   suggestedBudgetChange (getRecommendation no_to_string (example_roi 30)) = Num 0 \<and>
   action (getRecommendation no_to_string (example_roi 0)) = ''DECREASE_BUDGET'' \<and>
   suggestedBudgetChange (getRecommendation no_to_string (example_roi 0)) = Num (- 0.4) \<and>
   action (getRecommendation no_to_string (example_roi (- 10))) = ''DECREASE_BUDGET'' \<and>
   suggestedBudgetChange (getRecommendation no_to_string (example_roi (- 10))) = Num (- 0.4)"
proof -
  have r: "p_roi (example_roi x) = Num x" for x
    by (simp add: example_roi_def)
  show ?thesis
    using getRecommendation_tiers [OF r [of 150], of no_to_string]
      getRecommendation_tiers [OF r [of 100], of no_to_string]
      getRecommendation_tiers [OF r [of 30], of no_to_string]
      getRecommendation_tiers [OF r [of 0], of no_to_string]
      getRecommendation_tiers [OF r [of "- 10"], of no_to_string]
    by simp
qed

section \<open>The derived metrics\<close>

lemma summary_of_fields:
  "totalCost (summary_of ts cs) = totalCost (summary_reduce cs)"
  "totalClicks (summary_of ts cs) = totalClicks (summary_reduce cs)"
  "totalImpressions (summary_of ts cs) = totalImpressions (summary_reduce cs)"
  "totalConversions (summary_of ts cs) = totalConversions (summary_reduce cs)"
  "totalRevenue (summary_of ts cs) = totalRevenue (summary_reduce cs)"
  "roas (summary_of ts cs) = summary_roas ts (summary_reduce cs)"
  "roi (summary_of ts cs) = summary_roi ts (summary_reduce cs)"
  "avgCpc (summary_of ts cs) = summary_avgCpc ts (summary_reduce cs)"
  "conversionRate (summary_of ts cs) = summary_conversionRate ts (summary_reduce cs)"
  "avgCtr (summary_of ts cs) = summary_avgCtr ts (summary_reduce cs)"
  by (simp_all add: summary_of_def Let_def totals.defs summary.defs)

lemma calculateProductROI_roi:
  "p_roi (calculateProductROI ts ad sales) =
     (if js_gt (adSpend ad) (Num 0)
      then js_mul (js_div (js_sub (sales_revenue sales) (adSpend ad)) (adSpend ad)) (Num 100)
      else Num 0)"
  by (simp add: calculateProductROI_def Let_def product_roi.defs product_result.defs)

text \<open>
  C2. No metric divides by zero: with a total cost of zero \<open>roas\<close> and \<open>roi\<close> are the
  Number 0, with no clicks \<open>avgCpc\<close> and \<open>conversionRate\<close> are 0, with no impressions
  \<open>avgCtr\<close> is 0, and \<open>calculateProductROI\<close> gives a \<open>roi\<close> of 0 for an ad spend
  of zero. None of these functions can throw.
\<close>

theorem zero_denominators:
  "(totalCost s = Num 0 \<longrightarrow>
      summary_roas ts s = Number (Num 0) \<and> summary_roi ts s = Number (Num 0)) \<and>
   (totalClicks s = Num 0 \<longrightarrow>
      summary_avgCpc ts s = Number (Num 0) \<and> summary_conversionRate ts s = Number (Num 0)) \<and>
   (totalImpressions s = Num 0 \<longrightarrow> summary_avgCtr ts s = Number (Num 0)) \<and>
   (adSpend ad = Num 0 \<longrightarrow> p_roi (calculateProductROI ts ad sales) = Num 0)"
  by (simp add: summary_roas_def summary_roi_def summary_avgCpc_def
      summary_conversionRate_def summary_avgCtr_def calculateProductROI_roi)

theorem zero_denominators_witness:
  "summary_roas no_to_string idle_totals = Number (Num 0) \<and>
   summary_roi no_to_string idle_totals = Number (Num 0) \<and>
   summary_avgCpc no_to_string idle_totals = Number (Num 0) \<and>
   summary_conversionRate no_to_string idle_totals = Number (Num 0) \<and>
   summary_avgCtr no_to_string idle_totals = Number (Num 0) \<and>
   p_roi (calculateProductROI no_to_string idle_adData (example_salesData 12)) = Num 0"
  using zero_denominators [of idle_totals no_to_string idle_adData "example_salesData 12"]
  by (simp add: idle_totals_def idle_adData_def)




text \<open>
  C8, as stated, fails: for the totals of the example response the \<open>roi\<close> is the string
  \<open>538.21\<close>, not 538.08.
\<close>

theorem example_totals_roi_counterexample:
  "summary_roi no_to_string example_totals = String ''538.21'' \<and>
   summary_roi no_to_string example_totals \<noteq> String ''538.08''"
  by (simp add: summary_roi_def example_totals_def js_sub_def fixed_digits_def
      digits.simps digit_char_def Let_def)

text \<open>
  C8, amended. For the totals of the example response the metrics are the strings
  \<open>6.38\<close> for \<open>roas\<close>, \<open>538.21\<close> for \<open>roi\<close>, \<open>0.20\<close> for \<open>avgCpc\<close>, \<open>7.21\<close> for
  \<open>conversionRate\<close> and \<open>2.70\<close> for \<open>avgCtr\<close>.
\<close>

theorem example_totals_metrics:
  "summary_roas ts example_totals = String ''6.38'' \<and>
   summary_roi ts example_totals = String ''538.21'' \<and>
   summary_avgCpc ts example_totals = String ''0.20'' \<and>
   summary_conversionRate ts example_totals = String ''7.21'' \<and>
   summary_avgCtr ts example_totals = String ''2.70''"
  by (simp add: summary_roas_def summary_roi_def summary_avgCpc_def
      summary_conversionRate_def summary_avgCtr_def example_totals_def js_sub_def
      fixed_digits_def digits.simps digit_char_def Let_def)

section \<open>The rows\<close>

lemma campaign_of_row_Inr:
  "(\<exists>d. campaign_of_row r = Inr d) = (campaign r \<noteq> None \<and> metrics r \<noteq> None)"
  by (auto simp: campaign_of_row_def split: option.splits)

lemma campaign_of_row_Inl:
  "campaign_of_row r = Inl e \<Longrightarrow> e = TypeError \<and> (campaign r = None \<or> metrics r = None)"
  by (auto simp: campaign_of_row_def split: option.splits)

lemma campaigns_of_rows_Inl:
  "campaigns_of_rows rows = Inl e \<Longrightarrow> e = TypeError"
  by (induction rows arbitrary: e)
     (auto split: sum.splits dest: campaign_of_row_Inl)

lemma campaigns_of_rows_Inr:
  "campaigns_of_rows rows = Inr cs \<Longrightarrow>
     length cs = length rows \<and> (\<forall>r\<in>set rows. campaign r \<noteq> None \<and> metrics r \<noteq> None)"
proof (induction rows arbitrary: cs)
  case Nil
  then show ?case by auto
next
  case (Cons r rows)
  then show ?case
    using campaign_of_row_Inr [of r] by (auto split: sum.splits)
qed

lemma campaigns_of_rows_complete:
  "\<forall>r\<in>set rows. campaign r \<noteq> None \<and> metrics r \<noteq> None \<Longrightarrow>
     \<exists>cs. campaigns_of_rows rows = Inr cs"
proof (induction rows)
  case Nil
  then show ?case by simp
next
  case (Cons r rows)
  then obtain d cs where "campaign_of_row r = Inr d" "campaigns_of_rows rows = Inr cs"
    using campaign_of_row_Inr [of r] by auto
  then show ?case by simp
qed

text \<open>
  C6, as stated, fails: a row without \<open>metrics.clicks\<close> is not rejected.
  \<open>getCampaigns\<close> returns a campaign for it whose \<open>clicks\<close> is \<open>undefined\<close>.
\<close>

theorem missing_leaf_counterexample:
  "getCampaigns (Inr [row_without_clicks]) =
     Inr [\<lparr>c_id = Some ''101'', c_name = Some ''Summer Sale'', c_status = Some ''ENABLED'',
           c_type = Some ''SEARCH'', c_cost = Num 2.5, c_clicks = None,
           c_impressions = Some (Num 900), c_conversions = Some (Num 4),
           c_revenue = Some (Num 80), c_avgCpc = Num 0.25, c_ctr = Some (Num 0.01)\<rparr>]"
  by (simp add: getCampaigns_def campaign_of_row_def row_without_clicks_def)

text \<open>
  C6, amended. A row without its \<open>campaign\<close> or its \<open>metrics\<close> object makes
  \<open>getCampaigns\<close> throw a \<open>TypeError\<close> to its caller, and no campaign is returned.
  When every row has both objects, \<open>getCampaigns\<close> returns one campaign for each row;
  a property missing from one of the two objects is \<open>undefined\<close> in the campaign, and
  the cost is \<open>NaN\<close> when \<open>cost_micros\<close> is missing.
\<close>

theorem missing_fields:
  "(r \<in> set rows \<and> (campaign r = None \<or> metrics r = None) \<longrightarrow>
      getCampaigns (Inr rows) = Inl TypeError) \<and>
   ((\<forall>r\<in>set rows. campaign r \<noteq> None \<and> metrics r \<noteq> None) \<longrightarrow>
      (\<exists>cs. getCampaigns (Inr rows) = Inr cs \<and> length cs = length rows)) \<and>
   (campaign r = Some c \<and> metrics r = Some m \<longrightarrow>
      (\<exists>d. campaign_of_row r = Inr d \<and>
         c_id d = campaign_id c \<and> c_name d = campaign_name c \<and>
         c_clicks d = metrics_clicks m \<and> c_impressions d = metrics_impressions m \<and>
         c_conversions d = metrics_conversions m \<and>
         c_revenue d = metrics_conversions_value m \<and>
         (metrics_cost_micros m = None \<longrightarrow> c_cost d = NaN)))"
proof (intro conjI impI)
  assume a: "r \<in> set rows \<and> (campaign r = None \<or> metrics r = None)"
  show "getCampaigns (Inr rows) = Inl TypeError"
  proof (cases "campaigns_of_rows rows")
    case (Inl e)
    then show ?thesis
      using campaigns_of_rows_Inl [of rows e] by (simp add: getCampaigns_def)
  next
    case (Inr cs)
    then show ?thesis
      using campaigns_of_rows_Inr [of rows cs] a by auto
  qed
next
  assume "\<forall>r\<in>set rows. campaign r \<noteq> None \<and> metrics r \<noteq> None"
  then obtain cs where "campaigns_of_rows rows = Inr cs"
    using campaigns_of_rows_complete by blast
  then show "\<exists>cs. getCampaigns (Inr rows) = Inr cs \<and> length cs = length rows"
    using campaigns_of_rows_Inr [of rows cs] by (simp add: getCampaigns_def)
next
  assume "campaign r = Some c \<and> metrics r = Some m"
  then show "\<exists>d. campaign_of_row r = Inr d \<and>
         c_id d = campaign_id c \<and> c_name d = campaign_name c \<and>
         c_clicks d = metrics_clicks m \<and> c_impressions d = metrics_impressions m \<and>
         c_conversions d = metrics_conversions m \<and>
         c_revenue d = metrics_conversions_value m \<and>
         (metrics_cost_micros m = None \<longrightarrow> c_cost d = NaN)"
    by (simp add: campaign_of_row_def)
qed

theorem missing_fields_witness:
  "getCampaigns (Inr [full_row, row_without_metrics]) = Inl TypeError \<and>
   (\<exists>cs. getCampaigns (Inr [full_row, row_without_clicks]) = Inr cs \<and> length cs = 2) \<and>
   (\<exists>d. campaign_of_row row_without_clicks = Inr d \<and> c_clicks d = None)"
proof -
  have 1: "getCampaigns (Inr [full_row, row_without_metrics]) = Inl TypeError"
    using missing_fields [of row_without_metrics "[full_row, row_without_metrics]"]
    by (simp add: row_without_metrics_def)
  have p: "\<forall>r\<in>set [full_row, row_without_clicks]. campaign r \<noteq> None \<and> metrics r \<noteq> None"
    by (simp add: full_row_def row_without_clicks_def)
  have 2: "\<exists>cs. getCampaigns (Inr [full_row, row_without_clicks]) = Inr cs \<and> length cs = 2"
    using missing_fields [of full_row "[full_row, row_without_clicks]"] p
    by (simp add: numeral_2_eq_2)
  have 3: "\<exists>d. campaign_of_row row_without_clicks = Inr d \<and> c_clicks d = None"
    using missing_fields [of row_without_clicks _ "the (campaign row_without_clicks)"
        "the (metrics row_without_clicks)"]
    by (auto simp: row_without_clicks_def)
  from 1 2 3 show ?thesis by blast
qed



section \<open>The totals\<close>


lemma js_add_nonneg:
  "js_ge a (Num 0) \<Longrightarrow> js_ge b (Num 0) \<Longrightarrow> js_ge (js_add a b) (Num 0)"
  by (cases a; cases b) simp_all

lemma foldl_js_add_nonneg:
  "js_ge a (Num 0) \<Longrightarrow> \<forall>x\<in>set xs. js_ge x (Num 0) \<Longrightarrow> js_ge (foldl js_add a xs) (Num 0)"
  by (induction xs arbitrary: a) (simp_all add: js_add_nonneg)

lemma foldl_summary_step:
  "foldl summary_step acc cs =
     \<lparr>totalCost = foldl js_add (totalCost acc) (map c_cost cs),
      totalClicks = foldl js_add (totalClicks acc) (map (\<lambda>c. ToNumber (c_clicks c)) cs),
      totalImpressions =
        foldl js_add (totalImpressions acc) (map (\<lambda>c. ToNumber (c_impressions c)) cs),
      totalConversions =
        foldl js_add (totalConversions acc) (map (\<lambda>c. ToNumber (c_conversions c)) cs),
      totalRevenue = foldl js_add (totalRevenue acc) (map (\<lambda>c. ToNumber (c_revenue c)) cs)\<rparr>"
  by (induction cs arbitrary: acc) (simp_all add: summary_step_def)

lemma summary_reduce_fields:
  "totalCost (summary_reduce cs) = foldl js_add (Num 0) (map c_cost cs)"
  "totalClicks (summary_reduce cs) = foldl js_add (Num 0) (map (\<lambda>c. ToNumber (c_clicks c)) cs)"
  "totalImpressions (summary_reduce cs) =
     foldl js_add (Num 0) (map (\<lambda>c. ToNumber (c_impressions c)) cs)"
  "totalConversions (summary_reduce cs) =
     foldl js_add (Num 0) (map (\<lambda>c. ToNumber (c_conversions c)) cs)"
  "totalRevenue (summary_reduce cs) = foldl js_add (Num 0) (map (\<lambda>c. ToNumber (c_revenue c)) cs)"
  by (simp_all add: summary_reduce_def foldl_summary_step summary_init_def)

lemma foldl_spend_step:
  "foldl spend_step acc cs =
     \<lparr>totalSpend = foldl js_add (totalSpend acc) (map a_cost cs),
      s_totalClicks = foldl js_add (s_totalClicks acc) (map (\<lambda>c. ToNumber (a_clicks c)) cs),
      s_totalImpressions =
        foldl js_add (s_totalImpressions acc) (map (\<lambda>c. ToNumber (a_impressions c)) cs),
      s_totalConversions =
        foldl js_add (s_totalConversions acc) (map (\<lambda>c. ToNumber (a_conversions c)) cs),
      s_totalRevenue =
        foldl js_add (s_totalRevenue acc) (map (\<lambda>c. ToNumber (conversionValue c)) cs)\<rparr>"
  by (induction cs arbitrary: acc) (simp_all add: spend_step_def)

lemma spend_reduce_fields:
  "totalSpend (spend_reduce cs) = foldl js_add (Num 0) (map a_cost cs)"
  "s_totalClicks (spend_reduce cs) = foldl js_add (Num 0) (map (\<lambda>c. ToNumber (a_clicks c)) cs)"
  "s_totalImpressions (spend_reduce cs) =
     foldl js_add (Num 0) (map (\<lambda>c. ToNumber (a_impressions c)) cs)"
  "s_totalConversions (spend_reduce cs) =
     foldl js_add (Num 0) (map (\<lambda>c. ToNumber (a_conversions c)) cs)"
  "s_totalRevenue (spend_reduce cs) =
     foldl js_add (Num 0) (map (\<lambda>c. ToNumber (conversionValue c)) cs)"
  by (simp_all add: spend_reduce_def foldl_spend_step spend_init_def)





text \<open>
  C9. When every field of every campaign is at least zero, so is every total.
\<close>

theorem summary_reduce_nonneg:
  "((\<forall>c\<in>set cs. js_ge (c_cost c) (Num 0) \<and> js_ge (ToNumber (c_clicks c)) (Num 0) \<and>
       js_ge (ToNumber (c_impressions c)) (Num 0) \<and>
       js_ge (ToNumber (c_conversions c)) (Num 0) \<and>
       js_ge (ToNumber (c_revenue c)) (Num 0)) \<longrightarrow>
    js_ge (totalCost (summary_reduce cs)) (Num 0) \<and>
    js_ge (totalClicks (summary_reduce cs)) (Num 0) \<and>
    js_ge (totalImpressions (summary_reduce cs)) (Num 0) \<and>
    js_ge (totalConversions (summary_reduce cs)) (Num 0) \<and>
    js_ge (totalRevenue (summary_reduce cs)) (Num 0)) \<and>
   ((\<forall>c\<in>set as. js_ge (a_cost c) (Num 0) \<and> js_ge (ToNumber (a_clicks c)) (Num 0) \<and>
       js_ge (ToNumber (a_impressions c)) (Num 0) \<and>
       js_ge (ToNumber (a_conversions c)) (Num 0) \<and>
       js_ge (ToNumber (conversionValue c)) (Num 0)) \<longrightarrow>
    js_ge (totalSpend (spend_reduce as)) (Num 0) \<and>
    js_ge (s_totalClicks (spend_reduce as)) (Num 0) \<and>
    js_ge (s_totalImpressions (spend_reduce as)) (Num 0) \<and>
    js_ge (s_totalConversions (spend_reduce as)) (Num 0) \<and>
    js_ge (s_totalRevenue (spend_reduce as)) (Num 0))"
  by (simp add: summary_reduce_fields spend_reduce_fields foldl_js_add_nonneg)

theorem summary_reduce_nonneg_witness:
  "js_ge (totalCost (summary_reduce [campaign_A, campaign_B])) (Num 0) \<and>
   js_ge (totalClicks (summary_reduce [campaign_A, campaign_B])) (Num 0) \<and>
   js_ge (totalImpressions (summary_reduce [campaign_A, campaign_B])) (Num 0) \<and>
   js_ge (totalConversions (summary_reduce [campaign_A, campaign_B])) (Num 0) \<and>
   js_ge (totalRevenue (summary_reduce [campaign_A, campaign_B])) (Num 0) \<and>
   js_ge (totalSpend (spend_reduce [ad_spend_A, ad_spend_B])) (Num 0) \<and>
   js_ge (s_totalClicks (spend_reduce [ad_spend_A, ad_spend_B])) (Num 0) \<and>
   js_ge (s_totalImpressions (spend_reduce [ad_spend_A, ad_spend_B])) (Num 0) \<and>
   js_ge (s_totalConversions (spend_reduce [ad_spend_A, ad_spend_B])) (Num 0) \<and>
   js_ge (s_totalRevenue (spend_reduce [ad_spend_A, ad_spend_B])) (Num 0)"
  using summary_reduce_nonneg [of "[campaign_A, campaign_B]" "[ad_spend_A, ad_spend_B]"]
  by (simp add: campaign_A_def campaign_B_def example_campaign_def
      ad_spend_A_def ad_spend_B_def example_ad_spend_def)

section \<open>The ranking of products\<close>

lemma mset_insert_by: "mset (insert_by cmp x ys) = add_mset x (mset ys)"
  by (induction ys) simp_all

lemma mset_js_sort: "mset (js_sort cmp xs) = mset xs"
  by (induction xs) (simp_all add: js_sort_def mset_insert_by)

lemma length_js_sort: "length (js_sort cmp xs) = length xs"
  using mset_js_sort [of cmp xs] by (metis size_mset)

lemma set_js_sort: "set (js_sort cmp xs) = set xs"
  using mset_js_sort [of cmp xs] by (metis set_mset_mset)

lemma js_gt_sub: "a \<noteq> NaN \<Longrightarrow> b \<noteq> NaN \<Longrightarrow> js_gt (js_sub b a) (Num 0) = js_gt b a"
  by (cases a; cases b) (simp_all add: js_sub_def)

lemma compare_roi_gt:
  "p_roi a \<noteq> NaN \<Longrightarrow> p_roi b \<noteq> NaN \<Longrightarrow>
     js_gt (compare_roi a b) (Num 0) = js_gt (p_roi b) (p_roi a)"
  by (simp add: compare_roi_def js_gt_sub)

lemma js_ge_total: "a \<noteq> NaN \<Longrightarrow> b \<noteq> NaN \<Longrightarrow> \<not> js_gt b a \<Longrightarrow> js_ge a b"
  by (cases a; cases b) simp_all

lemma js_gt_imp_ge: "js_gt b a \<Longrightarrow> js_ge b a"
  by (cases a; cases b) simp_all

lemma js_ge_trans: "js_ge a b \<Longrightarrow> js_ge b c \<Longrightarrow> js_ge a c"
  by (cases a; cases b; cases c) simp_all

lemma sorted_insert_by:
  assumes "sorted_wrt (\<lambda>a b. js_ge (p_roi a) (p_roi b)) ys"
    and "p_roi x \<noteq> NaN" and "\<forall>y\<in>set ys. p_roi y \<noteq> NaN"
  shows "sorted_wrt (\<lambda>a b. js_ge (p_roi a) (p_roi b)) (insert_by compare_roi x ys)"
  using assms
proof (induction ys)
  case Nil
  then show ?case by simp
next
  case (Cons y ys)
  show ?case
  proof (cases "js_gt (p_roi y) (p_roi x)")
    case True
    have "\<forall>z\<in>set (insert_by compare_roi x ys). js_ge (p_roi y) (p_roi z)"
      using Cons.prems True
      by (metis js_gt_imp_ge insert_iff mset_insert_by set_mset_add_mset_insert set_mset_mset
          sorted_wrt.simps(2))
    moreover have "sorted_wrt (\<lambda>a b. js_ge (p_roi a) (p_roi b)) (insert_by compare_roi x ys)"
      using Cons by simp
    ultimately show ?thesis
      using True Cons.prems by (simp add: compare_roi_gt)
  next
    case False
    then have xy: "js_ge (p_roi x) (p_roi y)"
      using Cons.prems by (simp add: js_ge_total)
    then have "\<forall>z\<in>set ys. js_ge (p_roi x) (p_roi z)"
      using Cons.prems by (auto intro: js_ge_trans)
    then show ?thesis
      using False xy Cons.prems by (simp add: compare_roi_gt)
  qed
qed

lemma sorted_js_sort:
  "\<forall>p\<in>set ps. p_roi p \<noteq> NaN \<Longrightarrow>
     sorted_wrt (\<lambda>a b. js_ge (p_roi a) (p_roi b)) (js_sort compare_roi ps)"
proof (induction ps)
  case Nil
  then show ?case by (simp add: js_sort_def)
next
  case (Cons p ps)
  then have "sorted_wrt (\<lambda>a b. js_ge (p_roi a) (p_roi b)) (js_sort compare_roi ps)"
    by simp
  then have "sorted_wrt (\<lambda>a b. js_ge (p_roi a) (p_roi b))
               (insert_by compare_roi p (js_sort compare_roi ps))"
    using Cons.prems by (intro sorted_insert_by) (simp_all add: set_js_sort)
  then show ?case
    by (simp add: js_sort_def)
qed

lemma with_rank_fields:
  "product_result.truncate (with_rank p i) = p"
  "rank (with_rank p i) = i + 1"
  "p_roi (with_rank p i) = p_roi p"
  by (simp_all add: with_rank_def product_result.defs ranked_result.defs)

lemma map_zip_left:
  "length xs = length js \<Longrightarrow> map (\<lambda>(p, i). f p) (zip xs js) = map f xs"
  by (induction xs js rule: list_induct2) simp_all

lemma map_zip_right:
  "length xs = length js \<Longrightarrow> map (\<lambda>(p, i). g i) (zip xs js) = map g js"
  by (induction xs js rule: list_induct2) simp_all

lemma compareProducts_maps:
  "map product_result.truncate (compareProducts ps) = js_sort compare_roi ps"
  "map p_roi (compareProducts ps) = map p_roi (js_sort compare_roi ps)"
  "map rank (compareProducts ps) = map Suc [0..<length ps]"
proof -
  let ?s = "js_sort compare_roi ps"
  have c: "compareProducts ps = map (\<lambda>(p, i). with_rank p i) (zip ?s [0..<length ?s])"
    by (simp add: compareProducts_def Let_def)
  have "map product_result.truncate (compareProducts ps) =
          map (\<lambda>(p, i). p) (zip ?s [0..<length ?s])"
    unfolding c by (simp add: with_rank_fields case_prod_unfold comp_def)
  then show "map product_result.truncate (compareProducts ps) = ?s"
    using map_zip_left [of ?s "[0..<length ?s]" "\<lambda>p. p"] by simp
  have "map p_roi (compareProducts ps) = map (\<lambda>(p, i). p_roi p) (zip ?s [0..<length ?s])"
    unfolding c by (simp add: with_rank_fields case_prod_unfold comp_def)
  then show "map p_roi (compareProducts ps) = map p_roi ?s"
    using map_zip_left [of ?s "[0..<length ?s]" p_roi] by simp
  have "map rank (compareProducts ps) = map (\<lambda>(p, i). Suc i) (zip ?s [0..<length ?s])"
    unfolding c by (simp add: with_rank_fields case_prod_unfold comp_def)
  then show "map rank (compareProducts ps) = map Suc [0..<length ps]"
    using map_zip_right [of ?s "[0..<length ?s]" Suc] by (simp add: length_js_sort)
qed

text \<open>
  C10. For results none of whose \<open>roi\<close> is \<open>NaN\<close>, \<open>compareProducts\<close> returns the
  same results, each as often as it was given, in an order in which no \<open>roi\<close> is below
  a later one, and gives them the ranks 1, 2, ... in that order; apart from the rank every
  result is as it was.
\<close>

theorem compareProducts_ranking:
  assumes "\<forall>p\<in>set ps. p_roi p \<noteq> NaN"
  shows "mset (map product_result.truncate (compareProducts ps)) = mset ps \<and>
         sorted_wrt (\<lambda>a b. js_ge (p_roi a) (p_roi b)) (compareProducts ps) \<and>
         map rank (compareProducts ps) = [1..<Suc (length ps)]"
proof (intro conjI)
  show "mset (map product_result.truncate (compareProducts ps)) = mset ps"
    by (simp add: compareProducts_maps mset_js_sort)
  have "sorted_wrt js_ge (map p_roi (js_sort compare_roi ps))"
    using sorted_js_sort [OF assms] by (simp add: sorted_wrt_map)
  then have "sorted_wrt js_ge (map p_roi (compareProducts ps))"
    by (simp add: compareProducts_maps)
  then show "sorted_wrt (\<lambda>a b. js_ge (p_roi a) (p_roi b)) (compareProducts ps)"
    by (simp add: sorted_wrt_map)
  show "map rank (compareProducts ps) = [1..<Suc (length ps)]"
    by (simp add: compareProducts_maps map_Suc_upt)
qed

theorem compareProducts_ranking_witness:
  "mset (map product_result.truncate (compareProducts example_results)) =
     mset example_results \<and>
   sorted_wrt (\<lambda>a b. js_ge (p_roi a) (p_roi b)) (compareProducts example_results) \<and>
   map rank (compareProducts example_results) = [1, 2, 3] \<and>
   map p_roi (compareProducts example_results) = [Num 600, Num 325, Num (- 50)]"
proof -
  have "\<forall>p\<in>set example_results. p_roi p \<noteq> NaN"
    by (simp add: example_results_def calculateProductROI_roi example_adData_def
        example_salesData_def js_sub_def)
  from compareProducts_ranking [OF this]
  have "mset (map product_result.truncate (compareProducts example_results)) =
          mset example_results"
    and "sorted_wrt (\<lambda>a b. js_ge (p_roi a) (p_roi b)) (compareProducts example_results)"
    and "map rank (compareProducts example_results) = [1..<Suc (length example_results)]"
    by simp_all
  moreover have "[1..<Suc (length example_results)] = [1, 2, 3]"
    by (simp add: example_results_def upt_rec)
  moreover have "map p_roi (compareProducts example_results) = [Num 600, Num 325, Num (- 50)]"
    by (simp add: compareProducts_maps js_sort_def example_results_def
        compare_roi_def calculateProductROI_roi example_adData_def example_salesData_def
        js_sub_def)
  ultimately show ?thesis
    by simp
qed

end
